theory Spec2Isabelle
  imports Complex_Main "HOL-Library.Log_Nat"
begin

section \<open>Text\<close>

text \<open>
  A Python \<^verbatim>\<open>str\<close> is modelled as a \<^typ>\<open>string\<close>, one \<^typ>\<open>char\<close> per code point
  below 256. The character classes below are those of Python 3 on these code points.
\<close>

definition isspace :: "char \<Rightarrow> bool" where
  \<comment> \<open>\<^verbatim>\<open>str.isspace\<close>, which is also the class \<^verbatim>\<open>\s\<close> of \<^verbatim>\<open>re\<close>\<close>
  "isspace c = (let n = (of_char c :: nat) in
     (9 \<le> n \<and> n \<le> 13) \<or> (28 \<le> n \<and> n \<le> 32) \<or> n = 133 \<or> n = 160)"

definition lower_char :: "char \<Rightarrow> char" where
  "lower_char c = (let n = (of_char c :: nat) in
     if (65 \<le> n \<and> n \<le> 90) \<or> (192 \<le> n \<and> n \<le> 222 \<and> n \<noteq> 215)
     then char_of (n + 32) else c)"

definition lower :: "string \<Rightarrow> string" where
  \<comment> \<open>\<^verbatim>\<open>str.lower\<close>\<close>
  "lower s = map lower_char s"

definition strip :: "string \<Rightarrow> string" where
  \<comment> \<open>\<^verbatim>\<open>str.strip\<close>: leading and trailing whitespace removed\<close>
  "strip s = rev (dropWhile isspace (rev (dropWhile isspace s)))"

section \<open>The ingredient database and the conversion factors\<close>

text \<open>
  Python's floats are modelled as real numbers: every arithmetic operation of the model
  is exact. An entry of the ingredient dictionary is a record; its key \<^verbatim>\<open>"unit"\<close>
  is optional.
\<close>

record ingredient_entry =
  density :: real
  temp_factor :: real
  special_unit :: "string option"

definition entry :: "real \<Rightarrow> real \<Rightarrow> ingredient_entry" where
  "entry d f = \<lparr>density = d, temp_factor = f, special_unit = None\<rparr>"

definition entry_unit :: "real \<Rightarrow> real \<Rightarrow> string \<Rightarrow> ingredient_entry" where
  "entry_unit d f u = \<lparr>density = d, temp_factor = f, special_unit = Some u\<rparr>"

definition load_ingredients_db :: "(string \<times> ingredient_entry) list" where
  "load_ingredients_db = [
    (''all-purpose flour'', entry 120 0.02),
    (''bread flour'', entry 127 0.02),
    (''cake flour'', entry 112 0.02),
    (''whole wheat flour'', entry 130 0.02),
    (''granulated sugar'', entry 200 0.005),
    (''brown sugar'', entry 220 0.01),
    (''powdered sugar'', entry 125 0.005),
    (''butter'', entry 227 0.05),
    (''vegetable oil'', entry 224 0.01),
    (''milk'', entry 242 0.02),
    (''heavy cream'', entry 238 0.02),
    (''water'', entry 237 0.01),
    (''salt'', entry 288 0.001),
    (''baking powder'', entry 192 0.005),
    (''baking soda'', entry 220 0.005),
    (''cocoa powder'', entry 106 0.02),
    (''honey'', entry 340 0.03),
    (''maple syrup'', entry 322 0.03),
    (''rolled oats'', entry 85 0.01),
    (''chopped nuts'', entry 113 0.01),
    (''chocolate chips'', entry 170 0.01),
    (''eggs'', entry_unit 50 0.02 ''each''),
    (''vanilla extract'', entry_unit 4.2 0.01 ''teaspoon''),
    (''yeast'', entry_unit 3 0.005 ''teaspoon'')]"

definition get_conversion_factors :: "(string \<times> real) list" where
  "get_conversion_factors = [
    (''cup'', 1),
    (''cups'', 1),
    (''tablespoon'', 0.0625),
    (''tablespoons'', 0.0625),
    (''tbsp'', 0.0625),
    (''teaspoon'', 0.0208333),
    (''teaspoons'', 0.0208333),
    (''tsp'', 0.0208333),
    (''fluid ounce'', 0.125),
    (''fluid ounces'', 0.125),
    (''fl oz'', 0.125),
    (''milliliter'', 0.00422675),
    (''milliliters'', 0.00422675),
    (''ml'', 0.00422675),
    (''liter'', 4.22675),
    (''liters'', 4.22675),
    (''l'', 4.22675),
    (''pint'', 2),
    (''pints'', 2),
    (''pt'', 2),
    (''quart'', 4),
    (''quarts'', 4),
    (''qt'', 4),
    (''gallon'', 16),
    (''gallons'', 16),
    (''gal'', 16)]"

section \<open>The gram converter\<close>

definition adjusted_density :: "ingredient_entry \<Rightarrow> real \<Rightarrow> real" where
  "adjusted_density e temperature =
     (let temp_diff = temperature - 20;
          density_adjustment = 1 + (temp_factor e * temp_diff / 10)
      in density e * density_adjustment)"

definition is_special_unit :: "ingredient_entry \<Rightarrow> string \<Rightarrow> bool" where
  "is_special_unit e u =
     (case special_unit e of None \<Rightarrow> False | Some su \<Rightarrow> u = su \<or> u = su @ ''s'')"

definition convert_to_grams :: "real \<Rightarrow> string \<Rightarrow> string \<Rightarrow> real \<Rightarrow> real option" where
  \<comment> \<open>\<^verbatim>\<open>None\<close> is Python's \<^verbatim>\<open>None\<close>; the function raises nothing\<close>
  "convert_to_grams quantity unit_arg ingredient_arg temperature =
     (let ingredient = strip (lower ingredient_arg);
          u = strip (lower unit_arg)
      in case map_of load_ingredients_db ingredient of
           None \<Rightarrow> None
         | Some e \<Rightarrow>
             if is_special_unit e u then Some (quantity * adjusted_density e temperature)
             else (case map_of get_conversion_factors u of
                     Some f \<Rightarrow> Some ((quantity * f) * adjusted_density e temperature)
                   | None \<Rightarrow>
                       if u \<in> set [''gram'', ''g'', ''grams''] then Some quantity
                       else if u \<in> set [''kilogram'', ''kg'', ''kilograms''] then Some (quantity * 1000)
                       else if u \<in> set [''ounce'', ''oz'', ''ounces''] then Some (quantity * 28.35)
                       else if u \<in> set [''pound'', ''lb'', ''pounds''] then Some (quantity * 453.59)
                       else None))"

section \<open>Splitting, joining and replacing\<close>

fun split_on :: "char \<Rightarrow> string \<Rightarrow> string list" where
  \<comment> \<open>\<^verbatim>\<open>s.split(c)\<close> for a separator of one character\<close>
  "split_on c [] = [[]]"
| "split_on c (x # xs) =
     (if x = c then [] # split_on c xs
      else (case split_on c xs of [] \<Rightarrow> [[x]] | y # ys \<Rightarrow> (x # y) # ys))"

fun join_on :: "char \<Rightarrow> string list \<Rightarrow> string" where
  \<comment> \<open>\<^verbatim>\<open>c.join(ls)\<close>\<close>
  "join_on c [] = []"
| "join_on c [l] = l"
| "join_on c (l # m # ls) = l @ c # join_on c (m # ls)"

definition split_first :: "char \<Rightarrow> string \<Rightarrow> string list" where
  \<comment> \<open>\<^verbatim>\<open>s.split(c, 1)\<close>: at most one split, at the first \<open>c\<close>\<close>
  "split_first c s =
     (case dropWhile (\<lambda>x. x \<noteq> c) s of
        [] \<Rightarrow> [s]
      | _ # r \<Rightarrow> [takeWhile (\<lambda>x. x \<noteq> c) s, r])"

fun replace_first :: "string \<Rightarrow> string \<Rightarrow> string \<Rightarrow> string" where
  \<comment> \<open>\<^verbatim>\<open>s.replace(old, new, 1)\<close>: only the leftmost occurrence is replaced\<close>
  "replace_first old new [] = (if old = [] then new else [])"
| "replace_first old new (x # xs) =
     (if take (length old) (x # xs) = old then new @ drop (length old) (x # xs)
      else x # replace_first old new xs)"

section \<open>Regular expressions\<close>

text \<open>
  The fragment of Python's \<^verbatim>\<open>re\<close> that the ingredient pattern uses, with the
  backtracking order of the library: a greedy repetition tries the longest run first, a
  lazy one the shortest, an optional part is tried before it is skipped, and the
  alternatives of a choice are tried from left to right. Repetition is over a character
  class, as in the pattern.
\<close>

datatype rx =
    Chr char
  | PlusG "char \<Rightarrow> bool"
  | PlusL "char \<Rightarrow> bool"
  | Seq rx rx
  | Alt rx rx
  | Opt rx
  | Grp nat rx
  | Eol

type_synonym groups = "(nat \<times> string) list"

fun plus_greedy :: "(char \<Rightarrow> bool) \<Rightarrow> string \<Rightarrow> (string \<Rightarrow> 'a option) \<Rightarrow> 'a option" where
  "plus_greedy P [] k = None"
| "plus_greedy P (x # xs) k =
     (if P x then (case plus_greedy P xs k of Some r \<Rightarrow> Some r | None \<Rightarrow> k xs) else None)"

fun plus_lazy :: "(char \<Rightarrow> bool) \<Rightarrow> string \<Rightarrow> (string \<Rightarrow> 'a option) \<Rightarrow> 'a option" where
  "plus_lazy P [] k = None"
| "plus_lazy P (x # xs) k =
     (if P x then (case k xs of Some r \<Rightarrow> Some r | None \<Rightarrow> plus_lazy P xs k) else None)"

fun rx_match :: "rx \<Rightarrow> string \<Rightarrow> groups \<Rightarrow> (string \<Rightarrow> groups \<Rightarrow> (string \<times> groups) option)
    \<Rightarrow> (string \<times> groups) option" where
  \<comment> \<open>the text still to read, the groups captured so far, and what to match afterwards\<close>
  "rx_match (Chr c) s g k = (case s of [] \<Rightarrow> None | x # xs \<Rightarrow> if x = c then k xs g else None)"
| "rx_match (PlusG P) s g k = plus_greedy P s (\<lambda>r. k r g)"
| "rx_match (PlusL P) s g k = plus_lazy P s (\<lambda>r. k r g)"
| "rx_match (Seq a b) s g k = rx_match a s g (\<lambda>r h. rx_match b r h k)"
| "rx_match (Alt a b) s g k =
     (case rx_match a s g k of Some m \<Rightarrow> Some m | None \<Rightarrow> rx_match b s g k)"
| "rx_match (Opt a) s g k =
     (case rx_match a s g k of Some m \<Rightarrow> Some m | None \<Rightarrow> k s g)"
| "rx_match (Grp n a) s g k =
     rx_match a s g (\<lambda>r h. k r ((n, take (length s - length r) s) # h))"
| "rx_match Eol s g k = (if s = [] \<or> s = ''\<newline>'' then k s g else None)"

record rx_found =
  whole :: string
  captured :: groups

definition match_at :: "rx \<Rightarrow> string \<Rightarrow> (string \<times> rx_found) option" where
  \<comment> \<open>a match that starts at the head of \<open>s\<close>: the text after it, and the match\<close>
  "match_at p s =
     (case rx_match p s [] (\<lambda>r h. Some (r, h)) of
        None \<Rightarrow> None
      | Some (r, h) \<Rightarrow> Some (r, \<lparr>whole = take (length s - length r) s, captured = h\<rparr>))"

function finditer :: "rx \<Rightarrow> string \<Rightarrow> rx_found list" where
  \<comment> \<open>\<^verbatim>\<open>re.finditer\<close>: the matches from left to right, none overlapping another;
      after an empty match the scan moves on by one character\<close>
  "finditer p s =
     (case match_at p s of
        Some (r, m) \<Rightarrow>
          m # (if length r < length s then finditer p r
               else (case s of [] \<Rightarrow> [] | _ # t \<Rightarrow> finditer p t))
      | None \<Rightarrow> (case s of [] \<Rightarrow> [] | _ # t \<Rightarrow> finditer p t))"
  by pat_completeness auto
termination
  by (relation "measure (\<lambda>(p, s). length s)") auto

declare finditer.simps [simp del]

definition group :: "rx_found \<Rightarrow> nat \<Rightarrow> string" where
  \<comment> \<open>\<^verbatim>\<open>match.group(n)\<close>; each group of the ingredient pattern takes part in every match\<close>
  "group m n = (case map_of (captured m) n of Some s \<Rightarrow> s | None \<Rightarrow> [])"

definition is_digit :: "char \<Rightarrow> bool" where
  \<comment> \<open>the class \<^verbatim>\<open>\d\<close>\<close>
  "is_digit c = (let n = (of_char c :: nat) in 48 \<le> n \<and> n \<le> 57)"

definition is_word :: "char \<Rightarrow> bool" where
  \<comment> \<open>the class \<^verbatim>\<open>\w\<close>\<close>
  "is_word c = (let n = (of_char c :: nat) in
     (48 \<le> n \<and> n \<le> 57) \<or> (65 \<le> n \<and> n \<le> 90) \<or> n = 95 \<or> (97 \<le> n \<and> n \<le> 122)
     \<or> n = 170 \<or> n = 178 \<or> n = 179 \<or> n = 181 \<or> n = 185 \<or> n = 186
     \<or> (188 \<le> n \<and> n \<le> 190) \<or> (192 \<le> n \<and> n \<le> 214) \<or> (216 \<le> n \<and> n \<le> 246)
     \<or> 248 \<le> n)"

definition is_quantity_char :: "char \<Rightarrow> bool" where
  \<comment> \<open>the class \<^verbatim>\<open>[\d./\s]\<close>\<close>
  "is_quantity_char c = (is_digit c \<or> c = CHR ''.'' \<or> c = CHR ''/'' \<or> isspace c)"

definition is_any :: "char \<Rightarrow> bool" where
  \<comment> \<open>the class \<^verbatim>\<open>.\<close>: every character but the newline\<close>
  "is_any c = (c \<noteq> CHR ''\<newline>'')"

definition ingredient_pattern :: rx where
  \<comment> \<open>\<^verbatim>\<open>([\d./\s]+)\s+(\w+(?:\s+\w+)?)\s+(?:of\s+)?(.+?)(?:,|$|\n)\<close>\<close>
  "ingredient_pattern =
     Seq (Grp 1 (PlusG is_quantity_char))
    (Seq (PlusG isspace)
    (Seq (Grp 2 (Seq (PlusG is_word) (Opt (Seq (PlusG isspace) (PlusG is_word)))))
    (Seq (PlusG isspace)
    (Seq (Opt (Seq (Chr CHR ''o'') (Seq (Chr CHR ''f'') (PlusG isspace))))
    (Seq (Grp 3 (PlusL is_any))
         (Alt (Chr CHR '','') (Alt Eol (Chr CHR ''\<newline>''))))))))"

section \<open>Reading a quantity\<close>

text \<open>
  The text of a quantity is what the first group of the pattern matched: digits, points,
  slashes and whitespace. On such a text \<^verbatim>\<open>float\<close> accepts digits with at most one
  point and at least one digit, between optional whitespace, and raises
  \<^verbatim>\<open>ValueError\<close> otherwise. Signs, exponents, underscores, \<^verbatim>\<open>inf\<close> and \<^verbatim>\<open>nan\<close>
  cannot occur in it and are not modelled: \<open>py_float\<close> is \<open>None\<close> on them.
\<close>

definition float_space :: "char \<Rightarrow> bool" where
  \<comment> \<open>the whitespace that \<^verbatim>\<open>float\<close> removes around a number\<close>
  "float_space c = (let n = (of_char c :: nat) in
     (9 \<le> n \<and> n \<le> 13) \<or> n = 32 \<or> n = 133 \<or> n = 160)"

definition digits_value :: "string \<Rightarrow> nat" where
  "digits_value ds = foldl (\<lambda>a c. 10 * a + (of_char c - 48)) 0 ds"

definition py_float :: "string \<Rightarrow> real option" where
  \<comment> \<open>\<^verbatim>\<open>float(s)\<close>; \<open>None\<close> is \<^verbatim>\<open>ValueError\<close>\<close>
  "py_float s =
     (let t = rev (dropWhile float_space (rev (dropWhile float_space s)));
          ip = takeWhile is_digit t
      in case dropWhile is_digit t of
           [] \<Rightarrow> if ip = [] then None else Some (of_nat (digits_value ip))
         | c # fp \<Rightarrow>
             if c = CHR ''.'' \<and> list_all is_digit fp \<and> (ip \<noteq> [] \<or> fp \<noteq> [])
             then Some (of_nat (digits_value ip) + of_nat (digits_value fp) / 10 ^ length fp)
             else None)"

definition py_div :: "real option \<Rightarrow> real option \<Rightarrow> real option" where
  \<comment> \<open>\<^verbatim>\<open>a / b\<close> on floats: \<^verbatim>\<open>ZeroDivisionError\<close> when \<open>b\<close> is zero\<close>
  "py_div a b =
     (case (a, b) of
        (Some x, Some y) \<Rightarrow> if y = 0 then None else Some (x / y)
      | _ \<Rightarrow> None)"

definition py_add :: "real option \<Rightarrow> real option \<Rightarrow> real option" where
  "py_add a b = (case (a, b) of (Some x, Some y) \<Rightarrow> Some (x + y) | _ \<Rightarrow> None)"

definition parse_quantity :: "string \<Rightarrow> real option" where
  \<comment> \<open>the quantity of a match; \<open>None\<close> is any exception, which the annotator catches\<close>
  "parse_quantity group1 =
     (let quantity_str = strip group1
      in if CHR ''/'' \<in> set quantity_str then
           (if CHR '' '' \<in> set quantity_str then
              (case split_first CHR '' '' quantity_str of
                 [whole_part, fraction] \<Rightarrow>
                   (case split_on CHR ''/'' fraction of
                      [num, denom] \<Rightarrow>
                        py_add (py_float whole_part) (py_div (py_float num) (py_float denom))
                    | _ \<Rightarrow> None)
               | _ \<Rightarrow> None)
            else
              (case split_on CHR ''/'' quantity_str of
                 [num, denom] \<Rightarrow> py_div (py_float num) (py_float denom)
               | _ \<Rightarrow> None))
         else py_float quantity_str)"

section \<open>Rounding and printing the grams\<close>

definition round_half_even :: "real \<Rightarrow> int" where
  "round_half_even x =
     (let f = \<lfloor>x\<rfloor>; d = x - of_int f
      in if d < 1 / 2 then f else if 1 / 2 < d then f + 1 else if even f then f else f + 1)"

function show_nat :: "nat \<Rightarrow> string" where
  "show_nat n = (if n < 10 then [''0123456789'' ! n] else show_nat (n div 10) @ [''0123456789'' ! (n mod 10)])"
  by pat_completeness auto
termination
  by (relation "measure id") auto

declare show_nat.simps [simp del]

definition format_grams :: "real \<Rightarrow> string" where
  \<comment> \<open>\<^verbatim>\<open>f"{round(grams, 1)}"\<close>: the tenths nearest to the real number \<open>grams\<close>, a tie to
      the even one, printed with one decimal. The code rounds the double it holds, which
      can differ from the real number in the last place: where the real number is at or
      next to a tie (85.05 for three ounces) the digit printed by the code can differ by
      one. From \<open>10 ^ 16\<close> on Python prints an exponent, which is not modelled.\<close>
  "format_grams grams =
     (let tenths = nat \<bar>round_half_even (grams * 10)\<bar>
      in (if grams < 0 then ''-'' else []) @ show_nat (tenths div 10) @ ''.'' @ show_nat (tenths mod 10))"

section \<open>The line annotator\<close>

definition annotate_match :: "real \<Rightarrow> rx_found \<Rightarrow> string \<Rightarrow> string" where
  \<comment> \<open>the body of the loop over the matches of a line\<close>
  "annotate_match temperature m modified_line =
     (case parse_quantity (group m 1) of
        None \<Rightarrow> modified_line
      | Some quantity \<Rightarrow>
          (case convert_to_grams quantity (group m 2) (group m 3) temperature of
             None \<Rightarrow> modified_line
           | Some grams \<Rightarrow>
               replace_first (whole m) (whole m @ '' ('' @ format_grams grams @ ''g)'') modified_line))"

definition annotate_matches :: "real \<Rightarrow> rx_found list \<Rightarrow> string \<Rightarrow> string" where
  "annotate_matches temperature ms line = foldl (\<lambda>l m. annotate_match temperature m l) line ms"

definition convert_line :: "real \<Rightarrow> string \<Rightarrow> string" where
  \<comment> \<open>the body of the loop over the lines\<close>
  "convert_line temperature line =
     (if strip line = [] then line
      else annotate_matches temperature (finditer ingredient_pattern line) line)"

definition convert_recipe_to_grams :: "string \<Rightarrow> real \<Rightarrow> string" where
  "convert_recipe_to_grams recipe_text temperature =
     join_on CHR ''\<newline>''
       (map (convert_line temperature) (split_on CHR ''\<newline>'' (strip recipe_text)))"

section \<open>The gram converter in double precision\<close>

text \<open>
  The converter computes with IEEE 754 doubles: every operation returns the double nearest
  to the exact result, a tie going to the even significand. \<open>round_double\<close> is that
  rounding, for results below the largest double (there is no infinity among the reals).
  \<open>convert_to_grams_with r\<close> is \<open>convert_to_grams\<close> with the rounding \<open>r\<close> applied to each
  number written with a decimal point and to the result of each operation; its arguments
  are doubles.
\<close>

definition pow2 :: "int \<Rightarrow> real" where
  "pow2 n = (if 0 \<le> n then 2 ^ nat n else 1 / 2 ^ nat (- n))"

definition binary_exponent :: "real \<Rightarrow> int" where
  \<comment> \<open>the \<open>e\<close> with \<open>2 ^ e \<le> \<bar>x\<bar> < 2 ^ (e + 1)\<close>, for \<open>x\<close> other than 0\<close>
  "binary_exponent x =
     (if 1 \<le> \<bar>x\<bar> then bitlen \<lfloor>\<bar>x\<bar>\<rfloor> - 1 else - bitlen (\<lceil>1 / \<bar>x\<bar>\<rceil> - 1))"

definition round_double :: "real \<Rightarrow> real" where
  \<comment> \<open>53 bits of significand; below \<open>2 ^ - 1022\<close> the doubles are \<open>2 ^ - 1074\<close> apart\<close>
  "round_double x =
     (if x = 0 then 0
      else let e = max (binary_exponent x) (- 1022);
               u = pow2 (e - 52)
           in of_int (round_half_even (x / u)) * u)"



fun contains :: "string \<Rightarrow> string \<Rightarrow> bool" where
  \<comment> \<open>\<^verbatim>\<open>sub in s\<close>: the text \<open>sub\<close> occurs in \<open>s\<close>\<close>
  "contains [] sub = (sub = [])"
| "contains (x # xs) sub = (take (length sub) (x # xs) = sub \<or> contains xs sub)"

section \<open>Properties of the gram converter\<close>

lemma db_keys_normal_all:
  "list_all (\<lambda>(k, e). strip (lower k) = k) load_ingredients_db"
  by code_simp

lemma db_special_units_all:
  "list_all (\<lambda>(k, e). special_unit e = None \<or> special_unit e = Some ''each''
      \<or> special_unit e = Some ''teaspoon'') load_ingredients_db"
  by code_simp

lemma db_entry_in: "map_of load_ingredients_db k = Some e \<Longrightarrow> (k, e) \<in> set load_ingredients_db"
  by (rule map_of_SomeD)

lemma db_key_normal: "map_of load_ingredients_db k = Some e \<Longrightarrow> strip (lower k) = k"
  using db_keys_normal_all db_entry_in [of k e] by (auto simp: list_all_iff)

lemma db_special_unit:
  "map_of load_ingredients_db k = Some e \<Longrightarrow>
     special_unit e = None \<or> special_unit e = Some ''each'' \<or> special_unit e = Some ''teaspoon''"
  using db_special_units_all db_entry_in [of k e] by (auto simp: list_all_iff)

lemma adjusted_density_20: "adjusted_density e 20 = density e"
  by (simp add: adjusted_density_def)

lemma unit_cup_normal: "strip (lower ''cup'') = ''cup''"
  by code_simp

lemma factor_cup: "map_of get_conversion_factors ''cup'' = Some 1"
  by (simp add: get_conversion_factors_def)

lemma unknown_ingredient:
  "map_of load_ingredients_db (strip (lower ingredient)) = None \<Longrightarrow>
     convert_to_grams q u ingredient t = None"
  by (simp add: convert_to_grams_def)

lemma known_ingredient:
  "map_of load_ingredients_db (strip (lower ingredient)) = Some e \<Longrightarrow>
     convert_to_grams q u ingredient t =
       (if is_special_unit e (strip (lower u)) then Some (q * adjusted_density e t)
        else (case map_of get_conversion_factors (strip (lower u)) of
                Some f \<Rightarrow> Some ((q * f) * adjusted_density e t)
              | None \<Rightarrow>
                  if strip (lower u) \<in> set [''gram'', ''g'', ''grams''] then Some q
                  else if strip (lower u) \<in> set [''kilogram'', ''kg'', ''kilograms''] then Some (q * 1000)
                  else if strip (lower u) \<in> set [''ounce'', ''oz'', ''ounces''] then Some (q * 28.35)
                  else if strip (lower u) \<in> set [''pound'', ''lb'', ''pounds''] then Some (q * 453.59)
                  else None))"
  by (simp add: convert_to_grams_def Let_def)

text \<open>
  Claim C1. For an ingredient of the database and a positive quantity \<open>q\<close>, the converter
  called with the unit \<^verbatim>\<open>cup\<close> at temperature 20 returns \<open>q\<close> times the density stored
  for the ingredient; one cup of all-purpose flour at 20 degrees is 120 grams.
\<close>
theorem cup_at_baseline:
  assumes "map_of load_ingredients_db name = Some e" and "0 < q"
  shows "convert_to_grams q ''cup'' name 20 = Some (q * density e)
     \<and> convert_to_grams 1 ''cup'' ''all-purpose flour'' 20 = Some 120"
proof
  have n: "map_of load_ingredients_db (strip (lower name)) = Some e"
    using assms(1) db_key_normal by simp
  have "\<not> is_special_unit e ''cup''"
    using db_special_unit [OF assms(1)] by (auto simp: is_special_unit_def)
  then show "convert_to_grams q ''cup'' name 20 = Some (q * density e)"
    by (simp add: known_ingredient [OF n] unit_cup_normal factor_cup adjusted_density_20)
  show "convert_to_grams 1 ''cup'' ''all-purpose flour'' 20 = Some 120"
    by code_simp
qed

theorem cup_at_baseline_witness:
  "map_of load_ingredients_db ''butter'' = Some (entry 227 0.05) \<and> (0::real) < 3
   \<and> convert_to_grams 3 ''cup'' ''butter'' 20 = Some (3 * 227)"
proof -
  have h: "map_of load_ingredients_db ''butter'' = Some (entry 227 0.05)"
    by (simp add: load_ingredients_db_def)
  have p: "(0::real) < 3" by simp
  from cup_at_baseline [OF h p] show ?thesis using h by (simp add: entry_def)
qed

text \<open>
  Claim C5. Whatever the quantity, the unit and the temperature, an ingredient whose
  trimmed, lowercased name is not a key of the database gives \<open>None\<close>; the model of the
  converter is total, there is no error to raise. One cup of unobtainium gives \<open>None\<close>.
\<close>
theorem unknown_ingredient_not_convertible:
  assumes "map_of load_ingredients_db (strip (lower ingredient)) = None"
  shows "convert_to_grams q u ingredient t = None
     \<and> convert_to_grams 1 ''cup'' ''unobtainium'' 20 = None"
proof
  show "convert_to_grams q u ingredient t = None"
    using assms by (rule unknown_ingredient)
  show "convert_to_grams 1 ''cup'' ''unobtainium'' 20 = None"
    by code_simp
qed

theorem unknown_ingredient_not_convertible_witness:
  "map_of load_ingredients_db (strip (lower '' Saffron'')) = None
   \<and> convert_to_grams 2 ''tbsp'' '' Saffron'' 25 = None"
proof -
  have h: "map_of load_ingredients_db (strip (lower '' Saffron'')) = None"
    by code_simp
  from unknown_ingredient_not_convertible [OF h, of 2 "''tbsp''" 25] show ?thesis
    using h by simp
qed

text \<open>
  Claim C6. For an ingredient with a counted unit, a unit equal to it, or to it followed by
  \<^verbatim>\<open>s\<close>, gives the quantity times the adjusted density, also when the same word is a
  volume unit, as \<^verbatim>\<open>teaspoon\<close> is; two teaspoons of vanilla extract at 20 degrees are
  \<open>2 * 4.2\<close> grams.
\<close>
theorem counted_unit_first:
  assumes "map_of load_ingredients_db (strip (lower ingredient)) = Some e"
    and "special_unit e = Some su"
    and "strip (lower u) = su \<or> strip (lower u) = su @ ''s''"
  shows "convert_to_grams q u ingredient t
           = Some (q * (density e * (1 + temp_factor e * (t - 20) / 10)))
     \<and> convert_to_grams 2 ''teaspoon'' ''vanilla extract'' 20 = Some (2 * 4.2)
     \<and> map_of get_conversion_factors ''teaspoon'' = Some 0.0208333"
proof (intro conjI)
  have "is_special_unit e (strip (lower u))"
    using assms(2,3) by (auto simp: is_special_unit_def)
  then show "convert_to_grams q u ingredient t
      = Some (q * (density e * (1 + temp_factor e * (t - 20) / 10)))"
    by (simp add: known_ingredient [OF assms(1)] adjusted_density_def)
  show "convert_to_grams 2 ''teaspoon'' ''vanilla extract'' 20 = Some (2 * 4.2)"
    by code_simp
  show "map_of get_conversion_factors ''teaspoon'' = Some 0.0208333"
    by (simp add: get_conversion_factors_def)
qed

theorem counted_unit_first_witness:
  "map_of load_ingredients_db (strip (lower ''Yeast'')) = Some (entry_unit 3 0.005 ''teaspoon'')
   \<and> special_unit (entry_unit 3 0.005 ''teaspoon'') = Some ''teaspoon''
   \<and> strip (lower ''Teaspoons '') = ''teaspoon'' @ ''s''
   \<and> convert_to_grams 2 ''Teaspoons '' ''Yeast'' 30 = Some (6.03)"
proof -
  have h1: "map_of load_ingredients_db (strip (lower ''Yeast'')) = Some (entry_unit 3 0.005 ''teaspoon'')"
    by code_simp
  have h2: "special_unit (entry_unit 3 0.005 ''teaspoon'') = Some ''teaspoon''"
    by (simp add: entry_unit_def)
  have h3: "strip (lower ''Teaspoons '') = ''teaspoon'' @ ''s''"
    by code_simp
  have h3': "strip (lower ''Teaspoons '') = ''teaspoon'' \<or> strip (lower ''Teaspoons '') = ''teaspoon'' @ ''s''"
    using h3 by simp
  from counted_unit_first [OF h1 h2 h3', of 2 30] show ?thesis
    using h1 h2 h3 by (simp add: entry_unit_def)
qed

lemma mass_unit_not_factor:
  "list_all (\<lambda>u. map_of get_conversion_factors u = None)
     [''gram'', ''g'', ''grams'', ''kilogram'', ''kg'', ''kilograms'',
      ''ounce'', ''oz'', ''ounces'', ''pound'', ''lb'', ''pounds'']"
  by (simp add: get_conversion_factors_def)

lemma mass_unit_not_special:
  assumes "map_of load_ingredients_db k = Some e"
    and "u \<in> set [''gram'', ''g'', ''grams'', ''kilogram'', ''kg'', ''kilograms'',
      ''ounce'', ''oz'', ''ounces'', ''pound'', ''lb'', ''pounds'']"
  shows "\<not> is_special_unit e u"
  using db_special_unit [OF assms(1)] assms(2) by (auto simp: is_special_unit_def)

text \<open>
  Claim C7. For a known ingredient, a mass unit gives the quantity unchanged (grams), times
  1000 (kilograms), times 28.35 (ounces) or times 453.59 (pounds): the result mentions
  neither the temperature nor the density.
\<close>
theorem mass_units_fixed:
  assumes "map_of load_ingredients_db (strip (lower ingredient)) = Some e"
  shows "(strip (lower u) \<in> set [''gram'', ''g'', ''grams''] \<longrightarrow>
            convert_to_grams q u ingredient t = Some q)
     \<and> (strip (lower u) \<in> set [''kilogram'', ''kg'', ''kilograms''] \<longrightarrow>
            convert_to_grams q u ingredient t = Some (q * 1000))
     \<and> (strip (lower u) \<in> set [''ounce'', ''oz'', ''ounces''] \<longrightarrow>
            convert_to_grams q u ingredient t = Some (q * 28.35))
     \<and> (strip (lower u) \<in> set [''pound'', ''lb'', ''pounds''] \<longrightarrow>
            convert_to_grams q u ingredient t = Some (q * 453.59))"
proof -
  let ?u = "strip (lower u)"
  have m: "?u \<in> set [''gram'', ''g'', ''grams'', ''kilogram'', ''kg'', ''kilograms'',
      ''ounce'', ''oz'', ''ounces'', ''pound'', ''lb'', ''pounds'']
    \<Longrightarrow> \<not> is_special_unit e ?u \<and> map_of get_conversion_factors ?u = None"
    using mass_unit_not_special [OF assms] mass_unit_not_factor
    by (simp only: list_all_iff) blast
  show ?thesis
  proof (intro conjI impI)
    assume a: "?u \<in> set [''gram'', ''g'', ''grams'']"
    then have "\<not> is_special_unit e ?u \<and> map_of get_conversion_factors ?u = None"
      using m by auto
    then show "convert_to_grams q u ingredient t = Some q"
      using a by (simp add: known_ingredient [OF assms])
  next
    assume a: "?u \<in> set [''kilogram'', ''kg'', ''kilograms'']"
    then have "\<not> is_special_unit e ?u \<and> map_of get_conversion_factors ?u = None"
      using m by auto
    then show "convert_to_grams q u ingredient t = Some (q * 1000)"
      using a by (auto simp add: known_ingredient [OF assms])
  next
    assume a: "?u \<in> set [''ounce'', ''oz'', ''ounces'']"
    then have "\<not> is_special_unit e ?u \<and> map_of get_conversion_factors ?u = None"
      using m by auto
    then show "convert_to_grams q u ingredient t = Some (q * 28.35)"
      using a by (auto simp add: known_ingredient [OF assms])
  next
    assume a: "?u \<in> set [''pound'', ''lb'', ''pounds'']"
    then have "\<not> is_special_unit e ?u \<and> map_of get_conversion_factors ?u = None"
      using m by auto
    then show "convert_to_grams q u ingredient t = Some (q * 453.59)"
      using a by (auto simp add: known_ingredient [OF assms])
  qed
qed

theorem mass_units_fixed_witness:
  "map_of load_ingredients_db (strip (lower ''Honey'')) = Some (entry 340 0.03)
   \<and> strip (lower ''g'') \<in> set [''gram'', ''g'', ''grams'']
   \<and> strip (lower '' KG'') \<in> set [''kilogram'', ''kg'', ''kilograms'']
   \<and> strip (lower ''ounces'') \<in> set [''ounce'', ''oz'', ''ounces'']
   \<and> strip (lower ''lb'') \<in> set [''pound'', ''lb'', ''pounds'']
   \<and> convert_to_grams 2 ''g'' ''Honey'' 35 = Some 2
   \<and> convert_to_grams 2 '' KG'' ''Honey'' 15 = Some 2000
   \<and> convert_to_grams 2 ''ounces'' ''Honey'' 20 = Some 56.7
   \<and> convert_to_grams 2 ''lb'' ''Honey'' 28 = Some 907.18"
proof -
  have h: "map_of load_ingredients_db (strip (lower ''Honey'')) = Some (entry 340 0.03)"
    by code_simp
  have u1: "strip (lower ''g'') \<in> set [''gram'', ''g'', ''grams'']" by code_simp
  have u2: "strip (lower '' KG'') \<in> set [''kilogram'', ''kg'', ''kilograms'']" by code_simp
  have u3: "strip (lower ''ounces'') \<in> set [''ounce'', ''oz'', ''ounces'']" by code_simp
  have u4: "strip (lower ''lb'') \<in> set [''pound'', ''lb'', ''pounds'']" by code_simp
  show ?thesis
    using h u1 u2 u3 u4
      mass_units_fixed [OF h, of "''g''" 2 35]
      mass_units_fixed [OF h, of "'' KG''" 2 15]
      mass_units_fixed [OF h, of "''ounces''" 2 20]
      mass_units_fixed [OF h, of "''lb''" 2 28]
    by simp
qed

text \<open>
  Claim C10. The lookup of the ingredient comes before the unit is examined: for an unknown
  ingredient the unit \<^verbatim>\<open>g\<close> gives \<open>None\<close>, not the quantity.
\<close>
theorem unknown_ingredient_blocks_grams:
  assumes "map_of load_ingredients_db (strip (lower ingredient)) = None"
  shows "convert_to_grams q ''g'' ingredient t = None
     \<and> convert_to_grams q ''g'' ingredient t \<noteq> Some q"
  using unknown_ingredient [OF assms, of q "''g''" t] by simp

theorem unknown_ingredient_blocks_grams_witness:
  "map_of load_ingredients_db (strip (lower ''almond flour'')) = None
   \<and> convert_to_grams 100 ''g'' ''almond flour'' 20 = None"
proof -
  have h: "map_of load_ingredients_db (strip (lower ''almond flour'')) = None"
    by code_simp
  from unknown_ingredient_blocks_grams [OF h, of 100 20] show ?thesis
    using h by simp
qed

section \<open>The temperature adjustment\<close>

text \<open>
  The rounding is the one of the standard: \<open>binary_exponent\<close> is the exponent of its
  argument, and \<open>round_double\<close> moves a number by half a unit in the last place at most.
\<close>

lemma round_half_even_near: "\<bar>of_int (round_half_even y) - y\<bar> \<le> 1 / 2"
  unfolding round_half_even_def Let_def by (auto; linarith)

lemma pow2_pos: "0 < pow2 n"
  by (simp add: pow2_def)

lemma binary_exponent_large:
  assumes "1 \<le> \<bar>x\<bar>"
  shows "pow2 (binary_exponent x) \<le> \<bar>x\<bar> \<and> \<bar>x\<bar> < pow2 (binary_exponent x + 1)"
proof -
  define n where "n = \<lfloor>\<bar>x\<bar>\<rfloor>"
  define b where "b = bitlen n"
  have n: "0 < n" using assms by (simp add: n_def)
  have bnd: "2 ^ nat (b - 1) \<le> n" "n < 2 ^ nat b"
    using bitlen_bounds [OF n] by (auto simp: b_def)
  have b1: "1 \<le> b"
    using n bitlen_eq_zero_iff [of n] bitlen_nonneg [of n] by (simp add: b_def)
  have "2 ^ nat (b - 1) = real_of_int (2 ^ nat (b - 1))" by simp
  also have "\<dots> \<le> real_of_int n" using bnd(1) by (simp only: of_int_le_iff)
  also have "\<dots> \<le> \<bar>x\<bar>" unfolding n_def by (rule of_int_floor_le)
  finally have lo: "2 ^ nat (b - 1) \<le> \<bar>x\<bar>" .
  have n1: "n + 1 \<le> 2 ^ nat b" using bnd(2) by simp
  have "\<bar>x\<bar> < real_of_int n + 1" unfolding n_def by (rule real_of_int_floor_add_one_gt)
  also have "\<dots> = real_of_int (n + 1)" by simp
  also have "\<dots> \<le> real_of_int (2 ^ nat b)" using n1 by (simp only: of_int_le_iff)
  also have "\<dots> = 2 ^ nat b" by simp
  finally have hi: "\<bar>x\<bar> < 2 ^ nat b" .
  have e: "binary_exponent x = b - 1"
    using assms by (simp add: binary_exponent_def b_def n_def)
  show ?thesis
    unfolding e using lo hi b1 by (simp add: pow2_def)
qed

lemma binary_exponent_small:
  assumes "x \<noteq> 0" and "\<bar>x\<bar> < 1"
  shows "pow2 (binary_exponent x) \<le> \<bar>x\<bar> \<and> \<bar>x\<bar> < pow2 (binary_exponent x + 1)"
proof -
  define y where "y = 1 / \<bar>x\<bar>"
  define k where "k = \<lceil>y\<rceil> - 1"
  define b where "b = bitlen k"
  have x: "0 < \<bar>x\<bar>" using assms(1) by simp
  have y: "1 < y" using assms(2) x by (simp add: y_def)
  have c: "real_of_int \<lceil>y\<rceil> - 1 < y" "y \<le> real_of_int \<lceil>y\<rceil>"
    using ceiling_correct [of y] by auto
  have "1 < real_of_int \<lceil>y\<rceil>" using y c(2) by simp
  then have k: "0 < k" by (simp add: k_def)
  have bnd: "2 ^ nat (b - 1) \<le> k" "k < 2 ^ nat b"
    using bitlen_bounds [OF k] by (auto simp: b_def)
  have b1: "1 \<le> b"
    using k bitlen_eq_zero_iff [of k] bitlen_nonneg [of k] by (simp add: b_def)
  have k1: "\<lceil>y\<rceil> \<le> 2 ^ nat b" using bnd(2) by (simp add: k_def)
  have "y \<le> real_of_int \<lceil>y\<rceil>" by (rule c(2))
  also have "\<dots> \<le> real_of_int (2 ^ nat b)" using k1 by (simp only: of_int_le_iff)
  also have "\<dots> = 2 ^ nat b" by simp
  finally have yhi: "y \<le> 2 ^ nat b" .
  have "2 ^ nat (b - 1) = real_of_int (2 ^ nat (b - 1))" by simp
  also have "\<dots> \<le> real_of_int k" using bnd(1) by (simp only: of_int_le_iff)
  also have "\<dots> < y" using c(1) by (simp add: k_def)
  finally have ylo: "2 ^ nat (b - 1) < y" .
  have xy: "\<bar>x\<bar> = 1 / y" using x by (simp add: y_def)
  have y0: "0 < y" using y by simp
  have lo: "1 / 2 ^ nat b \<le> \<bar>x\<bar>"
    unfolding xy using yhi y0 by (simp add: frac_le)
  have hi: "\<bar>x\<bar> < 1 / 2 ^ nat (b - 1)"
    unfolding xy using ylo by (simp add: frac_less2)
  have e: "binary_exponent x = - b"
    using assms(2) by (simp add: binary_exponent_def b_def k_def y_def)
  show ?thesis
  proof (cases "b = 1")
    case True
    then show ?thesis using lo hi unfolding e by (simp add: pow2_def)
  next
    case False
    then have "1 < b" using b1 by simp
    moreover have "nat (b - 1) = nat (- (1 - b))" by simp
    ultimately show ?thesis using lo hi unfolding e by (simp add: pow2_def)
  qed
qed

lemma binary_exponent_bounds:
  "x \<noteq> 0 \<Longrightarrow> pow2 (binary_exponent x) \<le> \<bar>x\<bar> \<and> \<bar>x\<bar> < pow2 (binary_exponent x + 1)"
  using binary_exponent_large [of x] binary_exponent_small [of x] by (cases "1 \<le> \<bar>x\<bar>") auto

lemma round_double_near:
  assumes "x \<noteq> 0"
  shows "\<bar>round_double x - x\<bar> \<le> pow2 (max (binary_exponent x) (- 1022) - 52) / 2"
proof -
  let ?u = "pow2 (max (binary_exponent x) (- 1022) - 52)"
  have u: "0 < ?u" by (rule pow2_pos)
  have "round_double x - x = (of_int (round_half_even (x / ?u)) - x / ?u) * ?u"
    using assms u by (simp add: round_double_def Let_def field_simps)
  then have "\<bar>round_double x - x\<bar> = \<bar>of_int (round_half_even (x / ?u)) - x / ?u\<bar> * ?u"
    using u by (simp add: abs_mult)
  also have "\<dots> \<le> (1 / 2) * ?u"
    using round_half_even_near [of "x / ?u"] u by (intro mult_right_mono) auto
  finally show ?thesis by simp
qed






section \<open>Properties of the quantity parser\<close>

lemma strip_plain:
  assumes "s \<noteq> []" and "\<not> isspace (hd s)" and "\<not> isspace (last s)"
  shows "strip s = s"
proof -
  have 1: "dropWhile isspace s = s"
    using assms(1,2) by (cases s) auto
  have "rev s \<noteq> []" and "\<not> isspace (hd (rev s))"
    using assms(1,3) by (auto simp: hd_rev)
  then have "dropWhile isspace (rev s) = rev s"
    by (cases "rev s") auto
  with 1 show ?thesis by (simp add: strip_def)
qed

lemma split_first_at: "c \<notin> set a \<Longrightarrow> split_first c (a @ c # r) = [a, r]"
  by (induction a) (auto simp: split_first_def split: list.splits)

lemma split_on_none: "c \<notin> set a \<Longrightarrow> split_on c a = [a]"
  by (induction a) auto

lemma split_on_at: "c \<notin> set a \<Longrightarrow> c \<notin> set b \<Longrightarrow> split_on c (a @ c # b) = [a, b]"
  by (induction a) (auto simp: split_on_none)


lemma digits_float_plain: "is_digit c \<Longrightarrow> \<not> float_space c \<and> c \<noteq> CHR ''.''"
  by (auto simp: is_digit_def float_space_def Let_def)

lemma py_float_digits:
  assumes "ds \<noteq> []" and "list_all is_digit ds"
  shows "py_float ds = Some (real (digits_value ds))"
proof -
  have h: "is_digit (hd ds)" and l: "is_digit (last ds)"
    using assms by (auto simp: list_all_iff)
  have 1: "dropWhile float_space ds = ds"
    using assms(1) h digits_float_plain by (cases ds) auto
  have "rev ds \<noteq> []" and "\<not> float_space (hd (rev ds))"
    using assms(1) l digits_float_plain by (auto simp: hd_rev)
  then have 2: "dropWhile float_space (rev ds) = rev ds"
    by (cases "rev ds") auto
  have 3: "takeWhile is_digit ds = ds" "dropWhile is_digit ds = []"
    using assms(2) by (auto simp: list_all_iff)
  show ?thesis
    using assms(1) by (simp add: py_float_def 1 2 3)
qed

lemma strip_digits:
  assumes "ds \<noteq> []" and "is_digit (hd ds)" and "is_digit (last ds)"
  shows "strip ds = ds"
  using assms by (intro strip_plain) (auto simp: is_digit_def isspace_def Let_def)

lemma digit_chars: "is_digit c \<Longrightarrow> c \<noteq> CHR ''/'' \<and> c \<noteq> CHR '' ''"
  by (auto simp: is_digit_def)

text \<open>
  Claim C4. The quantity parser reads \<^verbatim>\<open>1 1/2\<close> as 1.5, \<^verbatim>\<open>3/4\<close> as 0.75 and \<^verbatim>\<open>2\<close> as 2,
  and fails on \<^verbatim>\<open>1/0\<close>. For numerals \<open>a\<close>, \<open>b\<close>, \<open>c\<close> written in digits, the mixed
  number \<^verbatim>\<open>a b/c\<close> is read as \<open>a + b / c\<close> and the fraction \<^verbatim>\<open>a/b\<close> as \<open>a / b\<close>; a
  denominator of value zero makes the parser fail.
\<close>
theorem quantity_parser:
  assumes "a \<noteq> []" "b \<noteq> []" "c \<noteq> []"
    and "list_all is_digit a" "list_all is_digit b" "list_all is_digit c"
  shows "parse_quantity (a @ '' '' @ b @ ''/'' @ c)
           = (if digits_value c = 0 then None
              else Some (real (digits_value a) + real (digits_value b) / real (digits_value c)))
     \<and> parse_quantity (a @ ''/'' @ b)
           = (if digits_value b = 0 then None
              else Some (real (digits_value a) / real (digits_value b)))
     \<and> parse_quantity ''1 1/2'' = Some 1.5
     \<and> parse_quantity ''3/4'' = Some 0.75
     \<and> parse_quantity ''2'' = Some 2
     \<and> parse_quantity ''1/0'' = None"
proof (intro conjI)
  have na: "CHR ''/'' \<notin> set a" "CHR '' '' \<notin> set a"
    and nb: "CHR ''/'' \<notin> set b" "CHR '' '' \<notin> set b"
    and nc: "CHR ''/'' \<notin> set c"
    using assms(4-6) digit_chars by (auto simp: list_all_iff)
  have fa: "py_float a = Some (real (digits_value a))"
    and fb: "py_float b = Some (real (digits_value b))"
    and fc: "py_float c = Some (real (digits_value c))"
    using assms by (simp_all add: py_float_digits)
  let ?m = "a @ CHR '' '' # b @ CHR ''/'' # c"
  have "is_digit (hd ?m)" "is_digit (last ?m)"
    using assms by (auto simp: list_all_iff hd_append)
  then have sm: "strip ?m = ?m"
    using assms(1) by (intro strip_digits) auto
  have s1: "split_first CHR '' '' ?m = [a, b @ CHR ''/'' # c]"
    using na(2) by (rule split_first_at)
  have s2: "split_on CHR ''/'' (b @ CHR ''/'' # c) = [b, c]"
    using nb(1) nc by (rule split_on_at)
  have "parse_quantity ?m
           = (if digits_value c = 0 then None
              else Some (real (digits_value a) + real (digits_value b) / real (digits_value c)))"
    by (simp add: parse_quantity_def sm s1 s2 fa fb fc py_add_def py_div_def)
  then show "parse_quantity (a @ '' '' @ b @ ''/'' @ c)
           = (if digits_value c = 0 then None
              else Some (real (digits_value a) + real (digits_value b) / real (digits_value c)))"
    by simp
  let ?f = "a @ CHR ''/'' # b"
  have "is_digit (hd ?f)" "is_digit (last ?f)"
    using assms by (auto simp: list_all_iff hd_append)
  then have sf: "strip ?f = ?f"
    using assms(1) by (intro strip_digits) auto
  have s3: "split_on CHR ''/'' ?f = [a, b]"
    using na(1) nb(1) by (rule split_on_at)
  have "parse_quantity ?f
           = (if digits_value b = 0 then None
              else Some (real (digits_value a) / real (digits_value b)))"
    using na(2) nb(2) by (simp add: parse_quantity_def sf s3 fa fb py_div_def)
  then show "parse_quantity (a @ ''/'' @ b)
           = (if digits_value b = 0 then None
              else Some (real (digits_value a) / real (digits_value b)))"
    by simp
  show "parse_quantity ''1 1/2'' = Some 1.5" by code_simp
  show "parse_quantity ''3/4'' = Some 0.75" by code_simp
  show "parse_quantity ''2'' = Some 2" by code_simp
  show "parse_quantity ''1/0'' = None" by code_simp
qed

theorem quantity_parser_witness:
  "''2'' \<noteq> [] \<and> ''3'' \<noteq> [] \<and> ''8'' \<noteq> []
   \<and> list_all is_digit ''2'' \<and> list_all is_digit ''3'' \<and> list_all is_digit ''8''
   \<and> parse_quantity ''2 3/8'' = Some 2.375 \<and> parse_quantity ''2/3'' = Some (2 / 3)"
proof -
  have d: "list_all is_digit ''2''" "list_all is_digit ''3''" "list_all is_digit ''8''"
    by (simp_all add: is_digit_def)
  have n: "''2'' \<noteq> []" "''3'' \<noteq> []" "''8'' \<noteq> []"
    by simp_all
  have v: "digits_value ''2'' = 2" "digits_value ''3'' = 3" "digits_value ''8'' = 8"
    by (simp_all add: digits_value_def)
  from quantity_parser [OF n d] show ?thesis
    using d v by simp
qed

section \<open>Properties of the line annotator\<close>

lemma split_on_not_empty: "split_on c s \<noteq> []"
  by (induction s) (auto split: list.splits)

lemma split_on_free: "l \<in> set (split_on c s) \<Longrightarrow> c \<notin> set l"
  by (induction s arbitrary: l) (auto split: list.splits if_splits)

lemma split_on_append:
  "c \<notin> set l \<Longrightarrow> split_on c (l @ c # r) = l # split_on c r"
  by (induction l) auto

lemma split_on_plain: "c \<notin> set l \<Longrightarrow> split_on c l = [l]"
  by (induction l) auto


lemma split_on_join:
  "ls \<noteq> [] \<Longrightarrow> \<forall>l \<in> set ls. c \<notin> set l \<Longrightarrow> split_on c (join_on c ls) = ls"
proof (induction c ls rule: join_on.induct)
  case (1 c)
  then show ?case by simp
next
  case (2 c l)
  then show ?case by (simp add: split_on_plain)
next
  case (3 c l m ls)
  then show ?case by (simp add: split_on_append)
qed

lemma replace_first_chars: "set (replace_first old (old @ a) s) \<subseteq> set s \<union> set a"
proof (induction s)
  case Nil
  then show ?case by auto
next
  case (Cons x xs)
  show ?case
  proof (cases "take (length old) (x # xs) = old")
    case True
    have "set (take (length old) (x # xs)) \<subseteq> set (x # xs)"
      by (rule set_take_subset)
    then have o: "set old \<subseteq> set (x # xs)"
      using True by simp
    have d: "set (drop (length old) (x # xs)) \<subseteq> set (x # xs)"
      by (rule set_drop_subset)
    have "replace_first old (old @ a) (x # xs) = (old @ a) @ drop (length old) (x # xs)"
      by (simp only: replace_first.simps True simp_thms if_True)
    then show ?thesis using o d by auto
  next
    case False
    then have "replace_first old (old @ a) (x # xs) = x # replace_first old (old @ a) xs"
      by (simp only: replace_first.simps if_False)
    then show ?thesis using Cons by auto
  qed
qed


lemma digit_char_range: "k < 10 \<Longrightarrow> ''0123456789'' ! k \<in> set ''0123456789''"
  by (rule nth_mem) simp

lemma show_nat_chars: "set (show_nat n) \<subseteq> set ''0123456789''"
proof (induction n rule: show_nat.induct)
  case (1 n)
  show ?case
  proof (cases "n < 10")
    case True
    then have "show_nat n = [''0123456789'' ! n]"
      by (simp add: show_nat.simps [of n])
    then show ?thesis using digit_char_range [OF True] by simp
  next
    case False
    then have e: "show_nat n = show_nat (n div 10) @ [''0123456789'' ! (n mod 10)]"
      by (simp add: show_nat.simps [of n])
    have "n mod 10 < 10" by simp
    then have "''0123456789'' ! (n mod 10) \<in> set ''0123456789''"
      by (rule digit_char_range)
    then show ?thesis using 1 [OF False] unfolding e by simp
  qed
qed

lemma show_nat_no_newline: "CHR ''\<newline>'' \<notin> set (show_nat n)"
  using show_nat_chars [of n] by auto

lemma format_grams_no_newline: "CHR ''\<newline>'' \<notin> set (format_grams g)"
  by (simp add: format_grams_def Let_def show_nat_no_newline)


lemma annotation_no_newline:
  "CHR ''\<newline>'' \<notin> set ('' ('' @ format_grams g @ ''g)'')"
  using format_grams_no_newline [of g] by simp

lemma replace_first_no_newline:
  assumes "CHR ''\<newline>'' \<notin> set l" and "CHR ''\<newline>'' \<notin> set a"
  shows "CHR ''\<newline>'' \<notin> set (replace_first old (old @ a) l)"
  using replace_first_chars [of old a l] assms by blast

lemma annotate_match_no_newline:
  assumes "CHR ''\<newline>'' \<notin> set l"
  shows "CHR ''\<newline>'' \<notin> set (annotate_match t m l)"
proof (cases "parse_quantity (group m 1)")
  case None
  then show ?thesis using assms by (simp add: annotate_match_def)
next
  case (Some q)
  show ?thesis
  proof (cases "convert_to_grams q (group m 2) (group m 3) t")
    case None
    then show ?thesis using assms Some by (simp add: annotate_match_def)
  next
    case (Some g)
    have "annotate_match t m l
        = replace_first (whole m) (whole m @ ('' ('' @ format_grams g @ ''g)'')) l"
      using \<open>parse_quantity (group m 1) = Some q\<close> Some by (simp add: annotate_match_def)
    then show ?thesis
      using replace_first_no_newline [OF assms annotation_no_newline] by simp
  qed
qed

lemma annotate_matches_no_newline:
  "CHR ''\<newline>'' \<notin> set l \<Longrightarrow> CHR ''\<newline>'' \<notin> set (annotate_matches t ms l)"
  unfolding annotate_matches_def
  by (induction ms arbitrary: l) (simp_all add: annotate_match_no_newline)

lemma convert_line_no_newline:
  "CHR ''\<newline>'' \<notin> set l \<Longrightarrow> CHR ''\<newline>'' \<notin> set (convert_line t l)"
  by (simp add: convert_line_def annotate_matches_no_newline)

lemma convert_line_blank: "strip l = [] \<Longrightarrow> convert_line t l = l"
  by (simp add: convert_line_def)



text \<open>
  Claim C3, as the code has it. The annotator first removes the whitespace at both ends of
  the whole text, so blank lines at its start and end are lost. The lines of the output
  are the lines of the stripped text, each converted in its place: there are as many, and
  a blank line of the stripped text is the same line of the output.
\<close>
theorem annotator_keeps_stripped_lines:
  "split_on CHR ''\<newline>'' (convert_recipe_to_grams recipe_text t)
      = map (convert_line t) (split_on CHR ''\<newline>'' (strip recipe_text))
   \<and> length (split_on CHR ''\<newline>'' (convert_recipe_to_grams recipe_text t))
      = length (split_on CHR ''\<newline>'' (strip recipe_text))
   \<and> (\<forall>i < length (split_on CHR ''\<newline>'' (strip recipe_text)).
        strip (split_on CHR ''\<newline>'' (strip recipe_text) ! i) = [] \<longrightarrow>
        split_on CHR ''\<newline>'' (convert_recipe_to_grams recipe_text t) ! i
          = split_on CHR ''\<newline>'' (strip recipe_text) ! i)"
proof -
  let ?ls = "split_on CHR ''\<newline>'' (strip recipe_text)"
  have "map (convert_line t) ?ls \<noteq> []"
    by (simp add: split_on_not_empty)
  moreover have "\<forall>l \<in> set (map (convert_line t) ?ls). CHR ''\<newline>'' \<notin> set l"
    using split_on_free convert_line_no_newline by auto
  ultimately have eq: "split_on CHR ''\<newline>'' (convert_recipe_to_grams recipe_text t)
      = map (convert_line t) ?ls"
    unfolding convert_recipe_to_grams_def by (rule split_on_join)
  show ?thesis
    unfolding eq by (simp add: convert_line_blank)
qed

theorem annotator_keeps_stripped_lines_witness:
  "(1::nat) < length (split_on CHR ''\<newline>'' (strip ''1 cup milk\<newline>  \<newline>salt''))
   \<and> strip (split_on CHR ''\<newline>'' (strip ''1 cup milk\<newline>  \<newline>salt'') ! 1) = []
   \<and> split_on CHR ''\<newline>'' (convert_recipe_to_grams ''1 cup milk\<newline>  \<newline>salt'' 20) ! 1 = ''  ''"
proof -
  have h1: "(1::nat) < length (split_on CHR ''\<newline>'' (strip ''1 cup milk\<newline>  \<newline>salt''))"
    by code_simp
  have h2: "strip (split_on CHR ''\<newline>'' (strip ''1 cup milk\<newline>  \<newline>salt'') ! 1) = []"
    by code_simp
  have h3: "split_on CHR ''\<newline>'' (strip ''1 cup milk\<newline>  \<newline>salt'') ! 1 = ''  ''"
    by code_simp
  have h4: "convert_line 20 ''  '' = ''  ''"
    by code_simp
  from annotator_keeps_stripped_lines [of "''1 cup milk\<newline>  \<newline>salt''" 20]
  show ?thesis using h1 h2 h3 h4 by simp
qed

text \<open>
  Claim C3 as stated fails: a text of two lines whose first line is empty comes out as one
  line.
\<close>
theorem annotator_line_count_counterexample:
  "length (split_on CHR ''\<newline>'' (convert_recipe_to_grams ''\<newline>1 cup milk'' 20))
     \<noteq> length (split_on CHR ''\<newline>'' ''\<newline>1 cup milk'')"
  by code_simp

lemma annotate_match_unparsable:
  "parse_quantity (group m 1) = None \<Longrightarrow> annotate_match t m l = l"
  by (simp add: annotate_match_def)

lemma annotate_matches_filter:
  "annotate_matches t ms l
     = annotate_matches t (filter (\<lambda>m. parse_quantity (group m 1) \<noteq> None) ms) l"
  unfolding annotate_matches_def
  by (induction ms arbitrary: l) (simp_all add: annotate_match_unparsable)

lemma annotate_matches_all_unparsable:
  "\<forall>m \<in> set ms. parse_quantity (group m 1) = None \<Longrightarrow> annotate_matches t ms l = l"
  unfolding annotate_matches_def
  by (induction ms arbitrary: l) (simp_all add: annotate_match_unparsable)

text \<open>
  Claim C9 as stated fails. In the line below the first match has the quantity \<^verbatim>\<open>1/0\<close>,
  which does not parse, and the text of the second match occurs inside the first: the
  annotation of the second match is put at that first occurrence, so the text of the
  first match is not left as it was.
\<close>
theorem unparsable_span_counterexample:
  "finditer ingredient_pattern ''1/0 cup milk 2 cups water, 2 cups water''
     = [\<lparr>whole = ''1/0 cup milk 2 cups water,'',
          captured = [(3, ''2 cups water''), (2, ''cup milk''), (1, ''1/0'')]\<rparr>,
        \<lparr>whole = '' 2 cups water'',
          captured = [(3, ''water''), (2, ''cups''), (1, '' 2'')]\<rparr>]
   \<and> parse_quantity ''1/0'' = None
   \<and> take (length ''1/0 cup milk 2 cups water,'') ''1/0 cup milk 2 cups water, 2 cups water''
     = ''1/0 cup milk 2 cups water,''
   \<and> convert_recipe_to_grams ''1/0 cup milk 2 cups water, 2 cups water'' 20
     = ''1/0 cup milk 2 cups water (474.0g), 2 cups water''
   \<and> take (length ''1/0 cup milk 2 cups water,'')
        (convert_recipe_to_grams ''1/0 cup milk 2 cups water, 2 cups water'' 20)
     \<noteq> ''1/0 cup milk 2 cups water,''"
proof -
  have out: "convert_recipe_to_grams ''1/0 cup milk 2 cups water, 2 cups water'' 20
     = ''1/0 cup milk 2 cups water (474.0g), 2 cups water''"
    by code_simp
  have found: "finditer ingredient_pattern ''1/0 cup milk 2 cups water, 2 cups water''
     = [\<lparr>whole = ''1/0 cup milk 2 cups water,'',
          captured = [(3, ''2 cups water''), (2, ''cup milk''), (1, ''1/0'')]\<rparr>,
        \<lparr>whole = '' 2 cups water'',
          captured = [(3, ''water''), (2, ''cups''), (1, '' 2'')]\<rparr>]"
    by code_simp
  have unparsable: "parse_quantity ''1/0'' = None"
    by code_simp
  show ?thesis
    unfolding out using found unparsable by simp
qed

text \<open>
  Claim C9, as the code has it. A match whose quantity text does not parse makes no
  replacement: the step of the loop returns the line as it was, and the annotator is a
  total function (the exception is caught and no other statement of the loop can raise).
  The line that results is the one that the matches with a readable quantity produce by
  themselves, each replacement at the leftmost occurrence of its matched text, wherever
  that is in the line; when no match of the line has a readable quantity the line is
  unchanged.
\<close>
theorem unparsable_match_skipped:
  "(parse_quantity (group m 1) = None \<longrightarrow> annotate_match t m l = l)
   \<and> annotate_matches t ms l
        = annotate_matches t (filter (\<lambda>m. parse_quantity (group m 1) \<noteq> None) ms) l
   \<and> convert_line t line
        = (if strip line = [] then line
           else annotate_matches t
                  (filter (\<lambda>m. parse_quantity (group m 1) \<noteq> None)
                     (finditer ingredient_pattern line)) line)
   \<and> ((\<forall>m \<in> set ms. parse_quantity (group m 1) = None) \<longrightarrow> annotate_matches t ms l = l)"
proof (intro conjI impI)
  assume "parse_quantity (group m 1) = None"
  then show "annotate_match t m l = l" by (rule annotate_match_unparsable)
next
  show "annotate_matches t ms l
        = annotate_matches t (filter (\<lambda>m. parse_quantity (group m 1) \<noteq> None) ms) l"
    by (rule annotate_matches_filter)
next
  show "convert_line t line
        = (if strip line = [] then line
           else annotate_matches t
                  (filter (\<lambda>m. parse_quantity (group m 1) \<noteq> None)
                     (finditer ingredient_pattern line)) line)"
    using annotate_matches_filter [of t "finditer ingredient_pattern line" line]
    by (simp add: convert_line_def)
next
  assume "\<forall>m \<in> set ms. parse_quantity (group m 1) = None"
  then show "annotate_matches t ms l = l" by (rule annotate_matches_all_unparsable)
qed

theorem unparsable_match_skipped_witness:
  "parse_quantity (group \<lparr>whole = ''1/0 cup milk,'',
       captured = [(3, ''milk''), (2, ''cup''), (1, ''1/0'')]\<rparr> 1) = None
   \<and> annotate_match 20 \<lparr>whole = ''1/0 cup milk,'',
       captured = [(3, ''milk''), (2, ''cup''), (1, ''1/0'')]\<rparr> ''1/0 cup milk, 2 cups water''
     = ''1/0 cup milk, 2 cups water''
   \<and> annotate_matches 20 [\<lparr>whole = ''1/0 cup milk,'',
       captured = [(3, ''milk''), (2, ''cup''), (1, ''1/0'')]\<rparr>] ''1/0 cup milk, 2 cups water''
     = ''1/0 cup milk, 2 cups water''
   \<and> convert_line 20 ''1/0 cup milk, 2 cups water'' = ''1/0 cup milk, 2 cups water (474.0g)''"
proof -
  let ?m = "\<lparr>whole = ''1/0 cup milk,'',
       captured = [(3, ''milk''), (2, ''cup''), (1, ''1/0'')]\<rparr>"
  have h: "parse_quantity (group ?m 1) = None"
    by code_simp
  have c: "convert_line 20 ''1/0 cup milk, 2 cups water'' = ''1/0 cup milk, 2 cups water (474.0g)''"
    by code_simp
  have all: "\<forall>m \<in> set [?m]. parse_quantity (group m 1) = None"
    using h by simp
  note skipped = unparsable_match_skipped
    [of ?m 20 "''1/0 cup milk, 2 cups water''" "[?m]" "''1/0 cup milk, 2 cups water''"]
  have a: "annotate_match 20 ?m ''1/0 cup milk, 2 cups water'' = ''1/0 cup milk, 2 cups water''"
    using skipped h by blast
  have b: "annotate_matches 20 [?m] ''1/0 cup milk, 2 cups water'' = ''1/0 cup milk, 2 cups water''"
    using skipped all by blast
  show ?thesis using h a b c by blast
qed

text \<open>
  Claim C2 as stated fails: the annotated line does not contain the annotation before the
  comma.
\<close>
theorem annotation_after_comma_counterexample:
  "\<not> contains (convert_recipe_to_grams ''1 cup all-purpose flour, sifted'' 20)
       ''1 cup all-purpose flour (120.0g), sifted''"
  by code_simp

lemma replace_first_head: "replace_first old new (old @ rest) = new @ rest"
proof (cases "old @ rest")
  case Nil
  then show ?thesis by simp
next
  case (Cons x xs)
  have t: "take (length old) (x # xs) = old"
    and d: "drop (length old) (x # xs) = rest"
    by (simp_all add: Cons [symmetric])
  have "replace_first old new (x # xs) = new @ rest"
    by (simp only: replace_first.simps t d simp_thms if_True)
  then show ?thesis by (simp only: Cons)
qed

text \<open>
  Claim C2, as the code has it. The text matched by the pattern includes the comma that
  ends the ingredient phrase, and the annotation follows the matched text: the line
  \<^verbatim>\<open>1 cup all-purpose flour, sifted\<close> becomes \<^verbatim>\<open>1 cup all-purpose flour, (120.0g) sifted\<close>.
  The replacement is made at the leftmost occurrence of the matched text only: what follows
  it is kept as it is.
\<close>
theorem annotation_after_match:
  "convert_recipe_to_grams ''1 cup all-purpose flour, sifted'' 20
     = ''1 cup all-purpose flour, (120.0g) sifted''
   \<and> map whole (finditer ingredient_pattern ''1 cup all-purpose flour, sifted'')
     = [''1 cup all-purpose flour,'']
   \<and> replace_first old (old @ a) (old @ rest) = old @ a @ rest"
proof (intro conjI)
  show "convert_recipe_to_grams ''1 cup all-purpose flour, sifted'' 20
     = ''1 cup all-purpose flour, (120.0g) sifted''"
    by code_simp
  show "map whole (finditer ingredient_pattern ''1 cup all-purpose flour, sifted'')
     = [''1 cup all-purpose flour,'']"
    by code_simp
  show "replace_first old (old @ a) (old @ rest) = old @ a @ rest"
    using replace_first_head [of old "old @ a" rest] by simp
qed

end
